theory Spec2Isabelle
  imports Main
begin

section \<open>Values, errors and documents\<close>

text \<open>
  The service layer of the shop backend (\<^verbatim>\<open>src/services/user.service.js\<close>, which holds the
  user service and the cart service) is embedded as state-passing functions over an
  in-memory document store. Every \<^verbatim>\<open>throw\<close> of the source is a returned \<open>Inl\<close>; every
  operation returns the store it leaves behind, so that "unchanged" is a statement that
  is proved, not one that holds by typing.

  JavaScript numbers (wallet balance, unit cost, quantity) are modelled as unbounded
  integers: the arithmetic of the source is \<open>+\<close>, \<open>*\<close>, \<open>-\<close> and \<open><\<close> on such values.
  Object ids are modelled as natural numbers.
\<close>

type_synonym objectId = nat

text \<open>
  The JavaScript values that occur in the conditions of the source, with the language's
  truthiness, logical negation \<^verbatim>\<open>!\<close> and strict equality \<^verbatim>\<open>===\<close> (no coercion: values of
  different types are never strictly equal).
\<close>

datatype js_value = JSUndefined | JSNull | JSBool bool | JSNum int | JSStr string

fun truthy :: "js_value \<Rightarrow> bool" where
  "truthy JSUndefined = False"
| "truthy JSNull = False"
| "truthy (JSBool b) = b"
| "truthy (JSNum n) = (n \<noteq> 0)"
| "truthy (JSStr s) = (s \<noteq> [])"

definition js_not :: "js_value \<Rightarrow> js_value" where
  "js_not v = JSBool (\<not> truthy v)"

fun strict_eq :: "js_value \<Rightarrow> js_value \<Rightarrow> bool" where
  "strict_eq JSUndefined JSUndefined = True"
| "strict_eq JSNull JSNull = True"
| "strict_eq (JSBool a) (JSBool b) = (a = b)"
| "strict_eq (JSNum a) (JSNum b) = (a = b)"
| "strict_eq (JSStr a) (JSStr b) = (a = b)"
| "strict_eq _ _ = False"

text \<open>
  \<open>ApiError status message\<close> is the \<^verbatim>\<open>ApiError\<close> of the source; \<open>TypeError\<close> is what the
  JavaScript runtime throws when a property of \<^verbatim>\<open>null\<close> is read.
\<close>

datatype error = ApiError nat string | TypeError

abbreviation OK :: nat where "OK \<equiv> 200"
abbreviation BAD_REQUEST :: nat where "BAD_REQUEST \<equiv> 400"
abbreviation NOT_FOUND :: nat where "NOT_FOUND \<equiv> 404"
abbreviation INTERNAL_SERVER_ERROR :: nat where "INTERNAL_SERVER_ERROR \<equiv> 500"

record user =
  u_id :: objectId
  u_name :: string
  email :: string
  password :: string
  address :: string
  walletMoney :: int

record userBody =
  b_name :: string
  b_email :: string
  b_password :: string

record product =
  p_id :: objectId
  p_name :: string
  cost :: int

record cartItem =
  productOf :: product
  quantity :: int

record cart =
  c_email :: string
  cartItems :: "cartItem list"
  paymentOption :: string

text \<open>
  Modelled from the spec: the configuration module (\<^verbatim>\<open>config/config\<close>) is not part of the
  source at hand. Its values are parameters: the default address sentinel, the default
  payment option, and the wallet balance a new account starts with.
\<close>

record config =
  default_address :: string
  default_payment_option :: string
  default_wallet_money :: int

record db =
  users :: "user list"
  products :: "product list"
  carts :: "cart list"

section \<open>The document store\<close>

text \<open>
  Modelled from the spec: the models (\<^verbatim>\<open>models\<close>: \<^verbatim>\<open>User\<close>, \<^verbatim>\<open>Product\<close>, \<^verbatim>\<open>Cart\<close>) are not part
  of the source at hand. A collection is a list of documents. \<^verbatim>\<open>findById\<close> and \<^verbatim>\<open>findOne\<close>
  return the first document that matches, or nothing (\<^verbatim>\<open>null\<close>). \<^verbatim>\<open>save\<close> writes a
  document under its key (the id of a user, the email of a cart): it replaces the first
  document with that key, which is the one \<^verbatim>\<open>findOne\<close> returns. The store itself does not
  fail; \<^verbatim>\<open>Cart.create\<close> is refused only when a cart with that email is there already
  (at most one cart per user email).
\<close>

fun save_doc :: "('a \<Rightarrow> bool) \<Rightarrow> 'a \<Rightarrow> 'a list \<Rightarrow> 'a list" where
  "save_doc same x [] = [x]"
| "save_doc same x (y # ys) = (if same y then x # ys else y # save_doc same x ys)"

definition User_findById :: "db \<Rightarrow> objectId \<Rightarrow> user option" where
  "User_findById d i = find (\<lambda>u. u_id u = i) (users d)"

definition User_findOne :: "db \<Rightarrow> string \<Rightarrow> user option" where
  "User_findOne d e = find (\<lambda>u. email u = e) (users d)"

text \<open>
  Modelled from the spec: \<^verbatim>\<open>User.isEmailTaken\<close> is a static of the absent user model;
  it tells whether the email is already registered.
\<close>

definition isEmailTaken :: "db \<Rightarrow> string \<Rightarrow> bool" where
  "isEmailTaken d e = (User_findOne d e \<noteq> None)"

definition new_id :: "db \<Rightarrow> objectId" where
  "new_id d = Suc (foldr max (map u_id (users d)) 0)"

text \<open>
  Modelled from the spec: \<^verbatim>\<open>User.create\<close> persists a new user record with an id that no
  stored user has, the fields of the body, and the defaults for address and wallet.
\<close>

definition User_create :: "config \<Rightarrow> db \<Rightarrow> userBody \<Rightarrow> user \<times> db" where
  "User_create cfg d body =
     (let newUser = \<lparr>u_id = new_id d, u_name = b_name body, email = b_email body,
                     password = b_password body, address = default_address cfg,
                     walletMoney = default_wallet_money cfg\<rparr>
      in (newUser, d\<lparr>users := users d @ [newUser]\<rparr>))"

definition User_save :: "db \<Rightarrow> user \<Rightarrow> db" where
  "User_save d u = d\<lparr>users := save_doc (\<lambda>x. u_id x = u_id u) u (users d)\<rparr>"

text \<open>
  Modelled from the spec: \<^verbatim>\<open>hasSetNonDefaultAddress\<close> is a method of the absent user model,
  the capability check that the shipping address is distinct from the default sentinel.
\<close>

definition hasSetNonDefaultAddress :: "config \<Rightarrow> user \<Rightarrow> bool" where
  "hasSetNonDefaultAddress cfg u = (address u \<noteq> default_address cfg)"

definition Product_findById :: "db \<Rightarrow> objectId \<Rightarrow> product option" where
  "Product_findById d i = find (\<lambda>p. p_id p = i) (products d)"

definition Cart_findOne :: "db \<Rightarrow> string \<Rightarrow> cart option" where
  "Cart_findOne d e = find (\<lambda>c. c_email c = e) (carts d)"

definition Cart_create :: "db \<Rightarrow> cart \<Rightarrow> (cart \<times> db) option" where
  "Cart_create d c =
     (if Cart_findOne d (c_email c) \<noteq> None then None
      else Some (c, d\<lparr>carts := carts d @ [c]\<rparr>))"

definition Cart_save :: "db \<Rightarrow> cart \<Rightarrow> db" where
  "Cart_save d c = d\<lparr>carts := save_doc (\<lambda>x. c_email x = c_email c) c (carts d)\<rparr>"

section \<open>User service\<close>

definition getUserById :: "db \<Rightarrow> objectId \<Rightarrow> error + user" where
  "getUserById d i =
     (case User_findById d i of
        None \<Rightarrow> Inl (ApiError BAD_REQUEST ''User not found'')
      | Some u \<Rightarrow> Inr u)"

definition getUserByEmail :: "db \<Rightarrow> string \<Rightarrow> user option" where
  "getUserByEmail d e = User_findOne d e"

definition createUser :: "config \<Rightarrow> db \<Rightarrow> userBody \<Rightarrow> (error + user) \<times> db" where
  "createUser cfg d body =
     (if isEmailTaken d (b_email body) then (Inl (ApiError OK ''Email already taken''), d)
      else (case User_create cfg d body of (newUser, d') \<Rightarrow> (Inr newUser, d')))"

text \<open>
  \<^verbatim>\<open>getUserAddressById\<close> returns one of two object shapes. The query finds the user by id
  and projects it on address and email; both return statements read \<^verbatim>\<open>user.address\<close>,
  which throws a \<open>TypeError\<close> when the query found nothing.
\<close>

datatype addressView = AddressOnly string | IdAddressEmail objectId string string

definition getUserAddressById :: "db \<Rightarrow> objectId \<Rightarrow> js_value \<Rightarrow> error + addressView" where
  "getUserAddressById d i q =
     (case User_findById d i of
        None \<Rightarrow> Inl TypeError
      | Some u \<Rightarrow>
          if truthy q then Inr (AddressOnly (address u))
          else Inr (IdAddressEmail i (address u) (email u)))"

definition setAddress :: "db \<Rightarrow> user \<Rightarrow> string \<Rightarrow> string \<times> user \<times> db" where
  "setAddress d usr newAddress =
     (let usr' = usr\<lparr>address := newAddress\<rparr>
      in (address usr', usr', User_save d usr'))"

section \<open>Cart service\<close>

definition getCartByUser :: "db \<Rightarrow> user \<Rightarrow> error + cart" where
  "getCartByUser d usr =
     (case Cart_findOne d (email usr) of
        None \<Rightarrow> Inl (ApiError NOT_FOUND ''User does not have a cart'')
      | Some c \<Rightarrow> Inr c)"

text \<open>The condition \<^verbatim>\<open>!userCart.cartItems.length === 0\<close> of \<^verbatim>\<open>addProductToCart\<close>.\<close>

definition length_guard :: "cart \<Rightarrow> bool" where
  "length_guard userCart =
     strict_eq (js_not (JSNum (int (length (cartItems userCart))))) (JSNum 0)"

text \<open>The predicate \<^verbatim>\<open>(item) => item.product._id.equals(productId)\<close>.\<close>

definition is_product :: "objectId \<Rightarrow> cartItem \<Rightarrow> bool" where
  "is_product productId item = (p_id (productOf item) = productId)"

definition already_in_cart :: error where
  "already_in_cart = ApiError BAD_REQUEST
     (''Product already in cart. Use the cart sidebar to update '' @
      ''or remove product from cart'')"

definition not_in_database :: error where
  "not_in_database = ApiError BAD_REQUEST
     (''Product doesn'' @ [CHR 0x27] @ ''t exist in database'')"

definition addProductToCart ::
  "config \<Rightarrow> db \<Rightarrow> user \<Rightarrow> objectId \<Rightarrow> int \<Rightarrow> (error + cart) \<times> db" where
  "addProductToCart cfg d usr productId qty =
     (case (case Cart_findOne d (email usr) of
              Some c \<Rightarrow> Some (c, d)
            | None \<Rightarrow>
                (case Cart_create d \<lparr>c_email = email usr, cartItems = [],
                                     paymentOption = default_payment_option cfg\<rparr> of
                   None \<Rightarrow> None
                 | Some (c, d1) \<Rightarrow> Some (c, Cart_save d1 c))) of
        None \<Rightarrow> (Inl (ApiError INTERNAL_SERVER_ERROR ''500 Internal Server Error''), d)
      | Some (userCart, d1) \<Rightarrow>
          if length_guard userCart then (Inl (ApiError BAD_REQUEST ''Bad Request''), d1)
          else if list_ex (is_product productId) (cartItems userCart)
          then (Inl already_in_cart, d1)
          else (case Product_findById d1 productId of
                  None \<Rightarrow> (Inl not_in_database, d1)
                | Some p \<Rightarrow>
                    (let userCart' = userCart\<lparr>cartItems :=
                           cartItems userCart @ [\<lparr>productOf = p, quantity = qty\<rparr>]\<rparr>
                     in (Inr userCart', Cart_save d1 userCart'))))"

text \<open>
  \<^verbatim>\<open>find\<close> returns the first matching line item, and the assignment to its \<^verbatim>\<open>quantity\<close>
  changes that element of the cart's array in place.
\<close>

fun set_quantity :: "objectId \<Rightarrow> int \<Rightarrow> cartItem list \<Rightarrow> cartItem list" where
  "set_quantity productId qty [] = []"
| "set_quantity productId qty (item # items) =
     (if is_product productId item then item\<lparr>quantity := qty\<rparr> # items
      else item # set_quantity productId qty items)"

definition updateProductInCart ::
  "db \<Rightarrow> user \<Rightarrow> objectId \<Rightarrow> int \<Rightarrow> (error + cart) \<times> db" where
  "updateProductInCart d usr productId qty =
     (case Cart_findOne d (email usr) of
        None \<Rightarrow> (Inl (ApiError BAD_REQUEST
           (''User does not have a cart. Use POST to create cart '' @
            ''and add a product'')), d)
      | Some userCart \<Rightarrow>
          (case Product_findById d productId of
             None \<Rightarrow> (Inl not_in_database, d)
           | Some p \<Rightarrow>
               (case find (is_product productId) (cartItems userCart) of
                  None \<Rightarrow> (Inl (ApiError BAD_REQUEST ''Product not in cart''), d)
                | Some productExist \<Rightarrow>
                    (let userCart' = userCart\<lparr>cartItems :=
                           set_quantity productId qty (cartItems userCart)\<rparr>
                     in (Inr userCart', Cart_save d userCart')))))"

text \<open>\<^verbatim>\<open>findIndex\<close> gives the index of the first match, or \<open>-1\<close>.\<close>

fun findIndex :: "('a \<Rightarrow> bool) \<Rightarrow> 'a list \<Rightarrow> int" where
  "findIndex P [] = -1"
| "findIndex P (x # xs) =
     (if P x then 0 else (let i = findIndex P xs in if i = -1 then -1 else i + 1))"

text \<open>\<^verbatim>\<open>splice(i, 1)\<close> for an index \<open>i\<close> that is not negative.\<close>

definition splice1 :: "'a list \<Rightarrow> int \<Rightarrow> 'a list" where
  "splice1 xs i = take (nat i) xs @ drop (Suc (nat i)) xs"

definition deleteProductFromCart ::
  "db \<Rightarrow> user \<Rightarrow> objectId \<Rightarrow> (error + cart) \<times> db" where
  "deleteProductFromCart d usr productId =
     (case Cart_findOne d (email usr) of
        None \<Rightarrow> (Inl (ApiError BAD_REQUEST ''User does not have a cart''), d)
      | Some userCart \<Rightarrow>
          (let productExist = findIndex (is_product productId) (cartItems userCart)
           in if productExist = -1
              then (Inl (ApiError BAD_REQUEST ''Product not in cart''), d)
              else (let userCart' = userCart\<lparr>cartItems :=
                          splice1 (cartItems userCart) productExist\<rparr>
                    in (Inr userCart', Cart_save d userCart'))))"

text \<open>The accumulation \<^verbatim>\<open>forEach((item) => totalCost += item.product.cost * item.quantity)\<close>.\<close>

definition totalCost :: "cartItem list \<Rightarrow> int" where
  "totalCost items = foldl (\<lambda>t item. t + cost (productOf item) * quantity item) 0 items"

definition checkout :: "config \<Rightarrow> db \<Rightarrow> user \<Rightarrow> (error + cart) \<times> user \<times> db" where
  "checkout cfg d usr =
     (case Cart_findOne d (email usr) of
        None \<Rightarrow> (Inl (ApiError NOT_FOUND ''User does not have a cart''), usr, d)
      | Some userCart \<Rightarrow>
          if length (cartItems userCart) = 0
          then (Inl (ApiError BAD_REQUEST ''User cart is empty''), usr, d)
          else if \<not> hasSetNonDefaultAddress cfg usr
          then (Inl (ApiError BAD_REQUEST ''Address is not set''), usr, d)
          else if address usr = default_address cfg
          then (Inl (ApiError BAD_REQUEST ''Address is not set''), usr, d)
          else if walletMoney usr < totalCost (cartItems userCart)
          then (Inl (ApiError BAD_REQUEST ''Wallet Balance is Insufficient''), usr, d)
          else (let currMoney = walletMoney usr - totalCost (cartItems userCart);
                    usr' = usr\<lparr>walletMoney := currMoney\<rparr>;
                    d1 = User_save d usr';
                    userCart' = userCart\<lparr>cartItems := []\<rparr>;
                    d2 = Cart_save d1 userCart'
                in (Inr userCart', usr', d2)))"

section \<open>The line-item invariant and a concrete shop\<close>

text \<open>A product appears at most once among the line items of a cart.\<close>

definition unique_products :: "cart \<Rightarrow> bool" where
  "unique_products c = distinct (map (\<lambda>item. p_id (productOf item)) (cartItems c))"

definition carts_ok :: "db \<Rightarrow> bool" where
  "carts_ok d = list_all unique_products (carts d)"

text \<open>
  A small shop used to run the operations on concrete inputs: two products in the cart
  of one user (100 times 2 and 50 times 1, total 250), a third product in the catalog only.
\<close>

definition cfg0 :: config where
  "cfg0 = \<lparr>default_address = ''ADDRESS_NOT_SET'', default_payment_option = ''PAYMENT_OPTION_DEFAULT'',
           default_wallet_money = 500\<rparr>"

definition productA :: product where "productA = \<lparr>p_id = 1, p_name = ''A'', cost = 100\<rparr>"
definition productB :: product where "productB = \<lparr>p_id = 2, p_name = ''B'', cost = 50\<rparr>"
definition productC :: product where "productC = \<lparr>p_id = 3, p_name = ''C'', cost = 30\<rparr>"

definition alice :: user where
  "alice = \<lparr>u_id = 1, u_name = ''Alice'', email = ''a@x.io'', password = ''hashed'',
            address = ''12 Elm Street'', walletMoney = 300\<rparr>"

definition alice_cart :: cart where
  "alice_cart = \<lparr>c_email = ''a@x.io'',
      cartItems = [\<lparr>productOf = productA, quantity = 2\<rparr>, \<lparr>productOf = productB, quantity = 1\<rparr>],
      paymentOption = ''PAYMENT_OPTION_DEFAULT''\<rparr>"

definition shop :: db where
  "shop = \<lparr>users = [alice], products = [productA, productB, productC], carts = [alice_cart]\<rparr>"

lemmas scenario_defs = cfg0_def productA_def productB_def productC_def alice_def alice_cart_def shop_def

section \<open>Facts about the store\<close>

lemma find_Some_holds: "find P xs = Some x \<Longrightarrow> P x \<and> x \<in> set xs"
  by (induction xs) (auto split: if_splits)

lemma find_None_iff_list_ex: "(find P xs = None) = (\<not> list_ex P xs)"
  by (induction xs) auto

lemma find_save_doc_same: "same x \<Longrightarrow> find same (save_doc same x xs) = Some x"
  by (induction xs) auto

lemma find_save_doc_other:
  "\<not> P x \<Longrightarrow> (\<And>y. same y \<Longrightarrow> \<not> P y) \<Longrightarrow> find P (save_doc same x xs) = find P xs"
  by (induction xs) auto

lemma list_all_save_doc: "list_all Q xs \<Longrightarrow> Q x \<Longrightarrow> list_all Q (save_doc same x xs)"
  by (induction xs) auto

lemma save_doc_found_id: "find same xs = Some x \<Longrightarrow> save_doc same x xs = xs"
  by (induction xs) (auto split: if_splits)



lemma Cart_findOne_email: "Cart_findOne d e = Some c \<Longrightarrow> c_email c = e"
  by (auto simp: Cart_findOne_def dest: find_Some_holds)

lemma Cart_findOne_Cart_save: "Cart_findOne (Cart_save d c) (c_email c) = Some c"
  by (simp add: Cart_findOne_def Cart_save_def find_save_doc_same)

lemma Cart_findOne_Cart_save_other:
  "e \<noteq> c_email c \<Longrightarrow> Cart_findOne (Cart_save d c) e = Cart_findOne d e"
  unfolding Cart_findOne_def Cart_save_def
  by (simp, rule find_save_doc_other) auto

lemma Cart_findOne_User_save: "Cart_findOne (User_save d u) e = Cart_findOne d e"
  by (simp add: Cart_findOne_def User_save_def)



lemma Product_findById_Cart_save: "Product_findById (Cart_save d c) i = Product_findById d i"
  by (simp add: Product_findById_def Cart_save_def)



lemma map_set_quantity:
  "map (\<lambda>i. p_id (productOf i)) (set_quantity pid q xs) = map (\<lambda>i. p_id (productOf i)) xs"
  by (induction xs) (auto simp: is_product_def)

lemma set_quantity_first:
  "i < length xs \<Longrightarrow> is_product pid (xs ! i) \<Longrightarrow> (\<forall>j<i. \<not> is_product pid (xs ! j))
   \<Longrightarrow> set_quantity pid q xs = xs[i := (xs ! i)\<lparr>quantity := q\<rparr>]"
proof (induction xs arbitrary: i)
  case Nil
  then show ?case by simp
next
  case (Cons x xs)
  show ?case
  proof (cases i)
    case 0
    with Cons.prems show ?thesis by simp
  next
    case (Suc k)
    with Cons.prems have "\<not> is_product pid x" by auto
    moreover have "set_quantity pid q xs = xs[k := (xs ! k)\<lparr>quantity := q\<rparr>]"
      using Cons.prems Suc by (intro Cons.IH) auto
    ultimately show ?thesis using Suc by simp
  qed
qed

lemma findIndex_bounds: "findIndex P xs = -1 \<or> (0 \<le> findIndex P xs \<and> findIndex P xs < int (length xs))"
  by (induction xs) (auto simp: Let_def)

lemma findIndex_none: "(findIndex P xs = -1) = (\<not> list_ex P xs)"
proof (induction xs)
  case Nil
  then show ?case by simp
next
  case (Cons x xs)
  then show ?case using findIndex_bounds[of P xs] by (auto simp: Let_def)
qed

lemma distinct_map_remove_nth:
  "distinct (map f xs) \<Longrightarrow> distinct (map f (take n xs @ drop (Suc n) xs))"
proof (induction xs arbitrary: n)
  case Nil
  then show ?case by simp
next
  case (Cons x xs)
  show ?case
  proof (cases n)
    case 0
    with Cons.prems show ?thesis by simp
  next
    case (Suc k)
    have "set (take k xs @ drop (Suc k) xs) \<subseteq> set xs"
      using set_take_subset[of k xs] set_drop_subset[of "Suc k" xs] by auto
    then have "f x \<notin> f ` set (take k xs @ drop (Suc k) xs)"
      using Cons.prems by auto
    moreover have "distinct (map f (take k xs @ drop (Suc k) xs))"
      using Cons.prems by (intro Cons.IH) simp
    ultimately show ?thesis using Suc by auto
  qed
qed

lemma foldr_max_upper: "u \<in> set us \<Longrightarrow> u_id u \<le> foldr max (map u_id us) 0"
  by (induction us) auto

lemma new_id_fresh: "u \<in> set (users d) \<Longrightarrow> u_id u < new_id d"
  unfolding new_id_def using foldr_max_upper[of u "users d"] by simp

lemma find_append_fresh:
  "find P xs = None \<Longrightarrow> P x \<Longrightarrow> find P (xs @ [x]) = Some x"
  by (induction xs) (auto split: if_splits)

lemma find_None_set: "(find P xs = None) = (\<forall>x\<in>set xs. \<not> P x)"
  by (induction xs) auto

section \<open>Checkout\<close>







section \<open>The line-item invariant across the cart operations\<close>

lemma carts_ok_Cart_save: "carts_ok d \<Longrightarrow> unique_products c \<Longrightarrow> carts_ok (Cart_save d c)"
  by (simp add: carts_ok_def Cart_save_def list_all_save_doc)

lemma carts_ok_User_save: "carts_ok (User_save d u) = carts_ok d"
  by (simp add: carts_ok_def User_save_def)

lemma carts_ok_found: "carts_ok d \<Longrightarrow> Cart_findOne d e = Some c \<Longrightarrow> unique_products c"
  by (auto simp: carts_ok_def Cart_findOne_def list_all_iff dest: find_Some_holds)

lemma Product_findById_id: "Product_findById d i = Some p \<Longrightarrow> p_id p = i"
  by (auto simp: Product_findById_def dest: find_Some_holds)

lemma length_guard_False: "\<not> length_guard c"
  by (simp add: length_guard_def js_not_def)

lemma unique_products_append:
  assumes "unique_products c" and "\<not> list_ex (is_product pid) (cartItems c)" and "p_id p = pid"
  shows "unique_products (c\<lparr>cartItems := cartItems c @ [\<lparr>productOf = p, quantity = q\<rparr>]\<rparr>)"
  using assms by (auto simp: unique_products_def is_product_def list_ex_iff)

lemma unique_products_set_quantity:
  "unique_products c \<Longrightarrow> unique_products (c\<lparr>cartItems := set_quantity pid q (cartItems c)\<rparr>)"
  by (simp add: unique_products_def map_set_quantity)

lemma unique_products_splice1:
  "unique_products c \<Longrightarrow> unique_products (c\<lparr>cartItems := splice1 (cartItems c) i\<rparr>)"
  unfolding unique_products_def splice1_def
  using distinct_map_remove_nth [of "\<lambda>item. p_id (productOf item)" "cartItems c" "nat i"]
  by simp

lemma unique_products_empty: "unique_products (c\<lparr>cartItems := []\<rparr>)"
  by (simp add: unique_products_def)

lemma add_new_cart:
  assumes "Cart_findOne d (email usr) = None"
  shows "addProductToCart cfg d usr pid q =
    (let c0 = \<lparr>c_email = email usr, cartItems = [], paymentOption = default_payment_option cfg\<rparr>;
         d1 = d\<lparr>carts := carts d @ [c0]\<rparr>
     in case Product_findById d pid of
          None \<Rightarrow> (Inl not_in_database, d1)
        | Some p \<Rightarrow> (Inr (c0\<lparr>cartItems := [\<lparr>productOf = p, quantity = q\<rparr>]\<rparr>),
                     Cart_save d1 (c0\<lparr>cartItems := [\<lparr>productOf = p, quantity = q\<rparr>]\<rparr>)))"
proof -
  let ?c0 = "\<lparr>c_email = email usr, cartItems = [], paymentOption = default_payment_option cfg\<rparr>"
  let ?d1 = "d\<lparr>carts := carts d @ [?c0]\<rparr>"
  have find: "find (\<lambda>c. c_email c = email usr) (carts d @ [?c0]) = Some ?c0"
    using assms by (simp add: Cart_findOne_def find_append_fresh)
  have created: "Cart_create d ?c0 = Some (?c0, ?d1)"
    using assms by (simp add: Cart_create_def)
  have saved: "Cart_save ?d1 ?c0 = ?d1"
    using find by (simp add: Cart_save_def save_doc_found_id)
  have prod: "Product_findById ?d1 pid = Product_findById d pid"
    by (simp add: Product_findById_def)
  show ?thesis
    using assms created saved prod
    by (simp add: addProductToCart_def length_guard_False Let_def split: option.splits)
qed

lemma add_existing_cart:
  assumes "Cart_findOne d (email usr) = Some c"
  shows "addProductToCart cfg d usr pid q =
    (if list_ex (is_product pid) (cartItems c) then (Inl already_in_cart, d)
     else case Product_findById d pid of
          None \<Rightarrow> (Inl not_in_database, d)
        | Some p \<Rightarrow> (Inr (c\<lparr>cartItems := cartItems c @ [\<lparr>productOf = p, quantity = q\<rparr>]\<rparr>),
                     Cart_save d (c\<lparr>cartItems := cartItems c @ [\<lparr>productOf = p, quantity = q\<rparr>]\<rparr>)))"
  using assms
  by (simp add: addProductToCart_def length_guard_False Let_def split: option.splits)

lemma carts_ok_add:
  assumes "carts_ok d"
  shows "carts_ok (snd (addProductToCart cfg d usr pid q))"
proof (cases "Cart_findOne d (email usr)")
  case None
  let ?c0 = "\<lparr>c_email = email usr, cartItems = [], paymentOption = default_payment_option cfg\<rparr>"
  have ok1: "carts_ok (d\<lparr>carts := carts d @ [?c0]\<rparr>)"
    using assms by (simp add: carts_ok_def unique_products_def)
  have "unique_products (?c0\<lparr>cartItems := [\<lparr>productOf = p, quantity = q\<rparr>]\<rparr>)" for p
    by (simp add: unique_products_def)
  then show ?thesis
    using ok1 by (simp add: add_new_cart [OF None] Let_def carts_ok_Cart_save split: option.splits)
next
  case (Some c)
  have uc: "unique_products c" by (rule carts_ok_found [OF assms Some])
  show ?thesis
    using assms uc
    by (auto simp: add_existing_cart [OF Some] split: option.splits
        intro!: carts_ok_Cart_save unique_products_append dest: Product_findById_id)
qed

lemma carts_ok_update:
  assumes "carts_ok d"
  shows "carts_ok (snd (updateProductInCart d usr pid q))"
  using assms
  by (auto simp: updateProductInCart_def Let_def split: option.splits
      intro!: carts_ok_Cart_save unique_products_set_quantity dest: carts_ok_found)

lemma carts_ok_delete:
  assumes "carts_ok d"
  shows "carts_ok (snd (deleteProductFromCart d usr pid))"
  using assms
  by (auto simp: deleteProductFromCart_def Let_def split: option.splits
      intro!: carts_ok_Cart_save unique_products_splice1 dest: carts_ok_found)

lemma carts_ok_checkout:
  assumes "carts_ok d"
  shows "carts_ok (snd (snd (checkout cfg d usr)))"
  using assms
  by (auto simp: checkout_def Let_def carts_ok_User_save unique_products_empty
      split: option.splits intro!: carts_ok_Cart_save)

text \<open>
  C4. Every cart operation (add, update, delete, checkout) leaves a store in which every
  cart holds each product at most once in that state, whether it succeeds or fails.
  In particular, adding a product that is already a line item of the user's cart fails
  with the already-in-cart error and leaves the whole store, hence every quantity, as
  it was.
\<close>

theorem cart_operations_keep_products_unique:
  "(carts_ok d \<longrightarrow>
      carts_ok (snd (addProductToCart cfg d usr pid q))
      \<and> carts_ok (snd (updateProductInCart d usr pid q))
      \<and> carts_ok (snd (deleteProductFromCart d usr pid))
      \<and> carts_ok (snd (snd (checkout cfg d usr))))
   \<and> (\<forall>c. Cart_findOne d (email usr) = Some c \<and> list_ex (is_product pid) (cartItems c)
         \<longrightarrow> addProductToCart cfg d usr pid q = (Inl already_in_cart, d))"
  by (simp add: carts_ok_add carts_ok_update carts_ok_delete carts_ok_checkout add_existing_cart)

text \<open>
  In the shop, adding product 1 (already in the cart) is rejected and nothing changes;
  adding product 3 appends one line item and the carts still hold each product once.
\<close>

theorem cart_operations_keep_products_unique_witness:
  "carts_ok shop
   \<and> Cart_findOne shop (email alice) = Some alice_cart
   \<and> list_ex (is_product 1) (cartItems alice_cart)
   \<and> addProductToCart cfg0 shop alice 1 5 = (Inl already_in_cart, shop)
   \<and> carts_ok (snd (addProductToCart cfg0 shop alice 3 5))
   \<and> fst (addProductToCart cfg0 shop alice 3 5) =
       Inr (alice_cart\<lparr>cartItems := cartItems alice_cart @ [\<lparr>productOf = productC, quantity = 5\<rparr>]\<rparr>)"
proof -
  have h1: "carts_ok shop"
    by (simp add: carts_ok_def unique_products_def scenario_defs)
  have h2: "Cart_findOne shop (email alice) = Some alice_cart"
    by (simp add: Cart_findOne_def scenario_defs)
  have h3: "list_ex (is_product 1) (cartItems alice_cart)"
    by (simp add: is_product_def scenario_defs)
  have h4: "fst (addProductToCart cfg0 shop alice 3 5) =
       Inr (alice_cart\<lparr>cartItems := cartItems alice_cart @ [\<lparr>productOf = productC, quantity = 5\<rparr>]\<rparr>)"
    by (simp add: addProductToCart_def Cart_findOne_def Product_findById_def length_guard_def
        js_not_def is_product_def Let_def scenario_defs)
  show ?thesis
    using h1 h2 h3 h4 cart_operations_keep_products_unique [of shop cfg0 alice 3 5]
      cart_operations_keep_products_unique [of shop cfg0 alice 1 5]
    by simp
qed

section \<open>Adding a product\<close>









section \<open>Updating a line item\<close>

lemma find_first_index:
  "i < length xs \<Longrightarrow> P (xs ! i) \<Longrightarrow> (\<forall>j<i. \<not> P (xs ! j)) \<Longrightarrow> find P xs = Some (xs ! i)"
proof (induction xs arbitrary: i)
  case Nil
  then show ?case by simp
next
  case (Cons x xs)
  show ?case
  proof (cases i)
    case 0
    with Cons.prems show ?thesis by simp
  next
    case (Suc k)
    with Cons.prems have "\<not> P x" by auto
    moreover have "find P xs = Some (xs ! k)"
      using Cons.prems Suc by (intro Cons.IH) auto
    ultimately show ?thesis using Suc by simp
  qed
qed

text \<open>
  C7. For a user with a cart and a product that is in the catalog: when the product is not
  a line item of the cart, \<^verbatim>\<open>updateProductInCart\<close> fails with the status-400 error
  "Product not in cart" and the whole store is left as it was; when it is a line item,
  the quantity of that line item (the first one with this product) is overwritten in
  place, every other line item and every other field stay as they were, and the cart so
  changed is what the store holds for the user afterwards, all other documents untouched.
\<close>

theorem updateProductInCart_line_item:
  assumes "Cart_findOne d (email usr) = Some userCart"
    and "Product_findById d pid = Some p"
  shows "(\<not> list_ex (is_product pid) (cartItems userCart) \<longrightarrow>
            updateProductInCart d usr pid q = (Inl (ApiError BAD_REQUEST ''Product not in cart''), d))
       \<and> (\<forall>i. i < length (cartItems userCart) \<and> is_product pid (cartItems userCart ! i)
                \<and> (\<forall>j<i. \<not> is_product pid (cartItems userCart ! j)) \<longrightarrow>
            (\<exists>c' d'. updateProductInCart d usr pid q = (Inr c', d')
               \<and> c' = userCart\<lparr>cartItems :=
                     (cartItems userCart)[i := (cartItems userCart ! i)\<lparr>quantity := q\<rparr>]\<rparr>
               \<and> Cart_findOne d' (email usr) = Some c'
               \<and> (\<forall>e. e \<noteq> email usr \<longrightarrow> Cart_findOne d' e = Cart_findOne d e)
               \<and> users d' = users d \<and> products d' = products d))"
proof (intro conjI allI impI)
  assume "\<not> list_ex (is_product pid) (cartItems userCart)"
  then have "find (is_product pid) (cartItems userCart) = None"
    by (simp add: find_None_iff_list_ex)
  then show "updateProductInCart d usr pid q = (Inl (ApiError BAD_REQUEST ''Product not in cart''), d)"
    using assms by (simp add: updateProductInCart_def)
next
  fix i
  assume i: "i < length (cartItems userCart) \<and> is_product pid (cartItems userCart ! i)
                \<and> (\<forall>j<i. \<not> is_product pid (cartItems userCart ! j))"
  let ?c = "userCart\<lparr>cartItems := (cartItems userCart)[i := (cartItems userCart ! i)\<lparr>quantity := q\<rparr>]\<rparr>"
  have found: "find (is_product pid) (cartItems userCart) = Some (cartItems userCart ! i)"
    using i by (intro find_first_index) auto
  have upd: "set_quantity pid q (cartItems userCart)
      = (cartItems userCart)[i := (cartItems userCart ! i)\<lparr>quantity := q\<rparr>]"
    using i by (intro set_quantity_first) auto
  have run: "updateProductInCart d usr pid q = (Inr ?c, Cart_save d ?c)"
    using assms found upd by (simp add: updateProductInCart_def Let_def)
  have key: "c_email ?c = email usr"
    using Cart_findOne_email [OF assms(1)] by simp
  have stored: "Cart_findOne (Cart_save d ?c) (email usr) = Some ?c"
    using Cart_findOne_Cart_save [of d ?c] key by simp
  have other: "Cart_findOne (Cart_save d ?c) e = Cart_findOne d e" if "e \<noteq> email usr" for e
    using that key Cart_findOne_Cart_save_other [of e ?c d] by simp
  have rest: "users (Cart_save d ?c) = users d" "products (Cart_save d ?c) = products d"
    by (simp_all add: Cart_save_def)
  show "\<exists>c' d'. updateProductInCart d usr pid q = (Inr c', d')
               \<and> c' = userCart\<lparr>cartItems :=
                     (cartItems userCart)[i := (cartItems userCart ! i)\<lparr>quantity := q\<rparr>]\<rparr>
               \<and> Cart_findOne d' (email usr) = Some c'
               \<and> (\<forall>e. e \<noteq> email usr \<longrightarrow> Cart_findOne d' e = Cart_findOne d e)
               \<and> users d' = users d \<and> products d' = products d"
    using run stored other rest by simp
qed

text \<open>
  In the shop, product 3 is in the catalog but not in the cart: the update is rejected.
  Product 2 is the second line item: its quantity becomes 7 and the first line item stays.
\<close>

theorem updateProductInCart_line_item_witness:
  "Cart_findOne shop (email alice) = Some alice_cart
   \<and> Product_findById shop 3 = Some productC
   \<and> \<not> list_ex (is_product 3) (cartItems alice_cart)
   \<and> updateProductInCart shop alice 3 7 = (Inl (ApiError BAD_REQUEST ''Product not in cart''), shop)
   \<and> Product_findById shop 2 = Some productB
   \<and> fst (updateProductInCart shop alice 2 7) =
       Inr (alice_cart\<lparr>cartItems := [\<lparr>productOf = productA, quantity = 2\<rparr>,
                                        \<lparr>productOf = productB, quantity = 7\<rparr>]\<rparr>)"
proof -
  have h1: "Cart_findOne shop (email alice) = Some alice_cart"
    by (simp add: Cart_findOne_def scenario_defs)
  have h2: "Product_findById shop 3 = Some productC"
    by (simp add: Product_findById_def scenario_defs)
  have h3: "\<not> list_ex (is_product 3) (cartItems alice_cart)"
    by (simp add: is_product_def scenario_defs)
  have h4: "Product_findById shop 2 = Some productB"
    by (simp add: Product_findById_def scenario_defs)
  have h5: "1 < length (cartItems alice_cart) \<and> is_product 2 (cartItems alice_cart ! 1)
       \<and> (\<forall>j<1. \<not> is_product 2 (cartItems alice_cart ! j))"
    by (simp add: is_product_def scenario_defs)
  have h6: "(cartItems alice_cart)[1 := (cartItems alice_cart ! 1)\<lparr>quantity := 7\<rparr>]
      = [\<lparr>productOf = productA, quantity = 2\<rparr>, \<lparr>productOf = productB, quantity = 7\<rparr>]"
    by (simp add: alice_cart_def)
  have a: "updateProductInCart shop alice 3 7 = (Inl (ApiError BAD_REQUEST ''Product not in cart''), shop)"
    using updateProductInCart_line_item [OF h1 h2, of 7] h3 by blast
  have "\<exists>c' d'. updateProductInCart shop alice 2 7 = (Inr c', d')
      \<and> c' = alice_cart\<lparr>cartItems := (cartItems alice_cart)[1 := (cartItems alice_cart ! 1)\<lparr>quantity := 7\<rparr>]\<rparr>"
    using updateProductInCart_line_item [OF h1 h4, of 7] h5 by blast
  then have b: "fst (updateProductInCart shop alice 2 7) =
       Inr (alice_cart\<lparr>cartItems := [\<lparr>productOf = productA, quantity = 2\<rparr>,
                                        \<lparr>productOf = productB, quantity = 7\<rparr>]\<rparr>)"
    using h6 by auto
  show ?thesis using h1 h2 h3 h4 a b by simp
qed

section \<open>Creating and fetching users\<close>

lemma User_findOne_None: "(User_findOne d e = None) = (\<forall>u\<in>set (users d). email u \<noteq> e)"
  by (simp add: User_findOne_def find_None_set)

lemma isEmailTaken_iff: "isEmailTaken d e = (\<exists>u\<in>set (users d). email u = e)"
  by (auto simp: isEmailTaken_def User_findOne_None)

text \<open>
  C8. \<^verbatim>\<open>createUser\<close> fails if and only if a stored user already has the given email. It then
  throws the "Email already taken" error (which the source creates with status 200) and
  leaves the store as it was. Otherwise it appends one new user to the store and returns
  it: the user has the name, email and password of the body and an id that no stored user
  had, and can be fetched by that id and by that email afterwards.
\<close>

theorem createUser_fails_iff_email_taken:
  "((\<exists>e. fst (createUser cfg d body) = Inl e) \<longleftrightarrow> (\<exists>u\<in>set (users d). email u = b_email body))
   \<and> ((\<exists>u\<in>set (users d). email u = b_email body) \<longrightarrow>
        createUser cfg d body = (Inl (ApiError OK ''Email already taken''), d))
   \<and> (\<not> (\<exists>u\<in>set (users d). email u = b_email body) \<longrightarrow>
        (\<exists>newUser d'. createUser cfg d body = (Inr newUser, d')
           \<and> users d' = users d @ [newUser]
           \<and> u_name newUser = b_name body \<and> email newUser = b_email body
           \<and> password newUser = b_password body
           \<and> (\<forall>u\<in>set (users d). u_id u \<noteq> u_id newUser)
           \<and> getUserById d' (u_id newUser) = Inr newUser
           \<and> getUserByEmail d' (b_email body) = Some newUser
           \<and> products d' = products d \<and> carts d' = carts d))"
proof (intro conjI impI)
  show "(\<exists>e. fst (createUser cfg d body) = Inl e) \<longleftrightarrow> (\<exists>u\<in>set (users d). email u = b_email body)"
    by (simp add: createUser_def isEmailTaken_iff User_create_def Let_def)
next
  assume "\<exists>u\<in>set (users d). email u = b_email body"
  then show "createUser cfg d body = (Inl (ApiError OK ''Email already taken''), d)"
    by (simp add: createUser_def isEmailTaken_iff)
next
  assume free: "\<not> (\<exists>u\<in>set (users d). email u = b_email body)"
  let ?n = "\<lparr>u_id = new_id d, u_name = b_name body, email = b_email body,
             password = b_password body, address = default_address cfg,
             walletMoney = default_wallet_money cfg\<rparr>"
  let ?d = "d\<lparr>users := users d @ [?n]\<rparr>"
  have run: "createUser cfg d body = (Inr ?n, ?d)"
    using free by (simp add: createUser_def isEmailTaken_iff User_create_def Let_def)
  have fresh: "\<forall>u\<in>set (users d). u_id u \<noteq> new_id d"
  proof
    fix u assume "u \<in> set (users d)"
    then have "u_id u < new_id d" by (rule new_id_fresh)
    then show "u_id u \<noteq> new_id d" by simp
  qed
  have "find (\<lambda>u. u_id u = new_id d) (users d) = None"
    using fresh by (simp add: find_None_set)
  then have byid: "getUserById ?d (u_id ?n) = Inr ?n"
    by (simp add: getUserById_def User_findById_def find_append_fresh)
  have "find (\<lambda>u. email u = b_email body) (users d) = None"
    using free by (simp add: find_None_set)
  then have byemail: "getUserByEmail ?d (b_email body) = Some ?n"
    by (simp add: getUserByEmail_def User_findOne_def find_append_fresh)
  show "\<exists>newUser d'. createUser cfg d body = (Inr newUser, d')
           \<and> users d' = users d @ [newUser]
           \<and> u_name newUser = b_name body \<and> email newUser = b_email body
           \<and> password newUser = b_password body
           \<and> (\<forall>u\<in>set (users d). u_id u \<noteq> u_id newUser)
           \<and> getUserById d' (u_id newUser) = Inr newUser
           \<and> getUserByEmail d' (b_email body) = Some newUser
           \<and> products d' = products d \<and> carts d' = carts d"
    using run fresh byid byemail by simp
qed

text \<open>
  In the shop, the email of the stored user is refused and a new email is registered.
\<close>

theorem createUser_fails_iff_email_taken_witness:
  "(\<exists>u\<in>set (users shop). email u = b_email \<lparr>b_name = ''Al'', b_email = ''a@x.io'', b_password = ''pw''\<rparr>)
   \<and> createUser cfg0 shop \<lparr>b_name = ''Al'', b_email = ''a@x.io'', b_password = ''pw''\<rparr>
       = (Inl (ApiError OK ''Email already taken''), shop)
   \<and> \<not> (\<exists>u\<in>set (users shop). email u = b_email \<lparr>b_name = ''Bob'', b_email = ''b@x.io'', b_password = ''pw''\<rparr>)
   \<and> fst (createUser cfg0 shop \<lparr>b_name = ''Bob'', b_email = ''b@x.io'', b_password = ''pw''\<rparr>)
       = Inr \<lparr>u_id = 2, u_name = ''Bob'', email = ''b@x.io'', password = ''pw'',
              address = ''ADDRESS_NOT_SET'', walletMoney = 500\<rparr>"
proof -
  let ?al = "\<lparr>b_name = ''Al'', b_email = ''a@x.io'', b_password = ''pw''\<rparr>"
  let ?bob = "\<lparr>b_name = ''Bob'', b_email = ''b@x.io'', b_password = ''pw''\<rparr>"
  have h1: "\<exists>u\<in>set (users shop). email u = b_email ?al"
    by (simp add: scenario_defs)
  have h2: "\<not> (\<exists>u\<in>set (users shop). email u = b_email ?bob)"
    by (simp add: scenario_defs)
  have a: "createUser cfg0 shop ?al = (Inl (ApiError OK ''Email already taken''), shop)"
    using createUser_fails_iff_email_taken [of cfg0 shop ?al] h1 by blast
  have "\<exists>e. fst (createUser cfg0 shop ?al) = Inl e"
    using createUser_fails_iff_email_taken [of cfg0 shop ?al] h1 by blast
  have b: "fst (createUser cfg0 shop ?bob)
       = Inr \<lparr>u_id = 2, u_name = ''Bob'', email = ''b@x.io'', password = ''pw'',
              address = ''ADDRESS_NOT_SET'', walletMoney = 500\<rparr>"
    by (simp add: createUser_def isEmailTaken_def User_findOne_def User_create_def new_id_def
        Let_def scenario_defs)
  show ?thesis using h1 h2 a b by simp
qed

text \<open>
  C9. \<^verbatim>\<open>getUserById\<close> returns a stored user with the given id when there is one, and fails
  with the "User not found" error (status 400) when there is none.
\<close>

theorem getUserById_found_or_not_found:
  "((\<exists>u\<in>set (users d). u_id u = i) \<longrightarrow>
      (\<exists>u. getUserById d i = Inr u \<and> u \<in> set (users d) \<and> u_id u = i))
   \<and> (\<not> (\<exists>u\<in>set (users d). u_id u = i) \<longrightarrow>
      getUserById d i = Inl (ApiError BAD_REQUEST ''User not found''))"
proof (intro conjI impI)
  assume "\<exists>u\<in>set (users d). u_id u = i"
  then have "find (\<lambda>u. u_id u = i) (users d) \<noteq> None"
    by (simp add: find_None_set)
  then obtain u where u: "find (\<lambda>u. u_id u = i) (users d) = Some u" by auto
  from find_Some_holds [OF u] u
  show "\<exists>u. getUserById d i = Inr u \<and> u \<in> set (users d) \<and> u_id u = i"
    by (simp add: getUserById_def User_findById_def)
next
  assume "\<not> (\<exists>u\<in>set (users d). u_id u = i)"
  then have "find (\<lambda>u. u_id u = i) (users d) = None"
    by (simp add: find_None_set)
  then show "getUserById d i = Inl (ApiError BAD_REQUEST ''User not found'')"
    by (simp add: getUserById_def User_findById_def)
qed

text \<open>
  In the shop, id 1 is found and id 7 is not.
\<close>

theorem getUserById_found_or_not_found_witness:
  "(\<exists>u\<in>set (users shop). u_id u = 1)
   \<and> getUserById shop 1 = Inr alice
   \<and> \<not> (\<exists>u\<in>set (users shop). u_id u = 7)
   \<and> getUserById shop 7 = Inl (ApiError BAD_REQUEST ''User not found'')"
proof -
  have h1: "\<exists>u\<in>set (users shop). u_id u = 1"
    by (simp add: scenario_defs)
  have h2: "\<not> (\<exists>u\<in>set (users shop). u_id u = 7)"
    by (simp add: scenario_defs)
  have "\<exists>u. getUserById shop 1 = Inr u \<and> u \<in> set (users shop) \<and> u_id u = 1"
    using getUserById_found_or_not_found [of shop 1] h1 by blast
  then have a: "getUserById shop 1 = Inr alice"
    by (auto simp: shop_def)
  have b: "getUserById shop 7 = Inl (ApiError BAD_REQUEST ''User not found'')"
    using getUserById_found_or_not_found [of shop 7] h2 by blast
  show ?thesis using h1 h2 a b by simp
qed

text \<open>
  C10. \<^verbatim>\<open>getUserAddressById\<close> has no check for a missing user. When no stored user has the
  given id, the call ends in the runtime's \<open>TypeError\<close> of reading \<^verbatim>\<open>address\<close> from \<^verbatim>\<open>null\<close>,
  whatever the query flag, and never in an \<open>ApiError\<close>. When a user with the id exists,
  it returns the address alone if the flag is truthy, and id, address and email otherwise.
\<close>

theorem getUserAddressById_needs_user:
  "(\<not> (\<exists>u\<in>set (users d). u_id u = i) \<longrightarrow>
      getUserAddressById d i q = Inl TypeError
      \<and> (\<forall>status msg. getUserAddressById d i q \<noteq> Inl (ApiError status msg)))
   \<and> ((\<exists>u\<in>set (users d). u_id u = i) \<longrightarrow>
      (\<exists>u. u \<in> set (users d) \<and> u_id u = i
         \<and> getUserAddressById d i q =
             Inr (if truthy q then AddressOnly (address u)
                  else IdAddressEmail i (address u) (email u))))"
proof (intro conjI impI allI)
  assume "\<not> (\<exists>u\<in>set (users d). u_id u = i)"
  then have none: "find (\<lambda>u. u_id u = i) (users d) = None"
    by (simp add: find_None_set)
  then show "getUserAddressById d i q = Inl TypeError"
    by (simp add: getUserAddressById_def User_findById_def)
  fix status msg
  from none show "getUserAddressById d i q \<noteq> Inl (ApiError status msg)"
    by (simp add: getUserAddressById_def User_findById_def)
next
  assume "\<exists>u\<in>set (users d). u_id u = i"
  then have "find (\<lambda>u. u_id u = i) (users d) \<noteq> None"
    by (simp add: find_None_set)
  then obtain u where u: "find (\<lambda>u. u_id u = i) (users d) = Some u" by auto
  from find_Some_holds [OF u] u
  show "\<exists>u. u \<in> set (users d) \<and> u_id u = i
         \<and> getUserAddressById d i q =
             Inr (if truthy q then AddressOnly (address u)
                  else IdAddressEmail i (address u) (email u))"
    by (auto simp: getUserAddressById_def User_findById_def)
qed

text \<open>
  In the shop, id 7 ends in the type error for both values of the flag; id 1 is answered.
\<close>

theorem getUserAddressById_needs_user_witness:
  "\<not> (\<exists>u\<in>set (users shop). u_id u = 7)
   \<and> getUserAddressById shop 7 JSUndefined = Inl TypeError
   \<and> getUserAddressById shop 7 (JSBool True) = Inl TypeError
   \<and> (\<exists>u\<in>set (users shop). u_id u = 1)
   \<and> getUserAddressById shop 1 JSUndefined = Inr (IdAddressEmail 1 ''12 Elm Street'' ''a@x.io'')"
proof -
  have h1: "\<not> (\<exists>u\<in>set (users shop). u_id u = 7)"
    by (simp add: scenario_defs)
  have h2: "\<exists>u\<in>set (users shop). u_id u = 1"
    by (simp add: scenario_defs)
  have a: "getUserAddressById shop 7 JSUndefined = Inl TypeError"
    using getUserAddressById_needs_user [of shop 7 JSUndefined] h1 by blast
  have b: "getUserAddressById shop 7 (JSBool True) = Inl TypeError"
    using getUserAddressById_needs_user [of shop 7 "JSBool True"] h1 by blast
  have c: "getUserAddressById shop 1 JSUndefined = Inr (IdAddressEmail 1 ''12 Elm Street'' ''a@x.io'')"
    by (simp add: getUserAddressById_def User_findById_def scenario_defs)
  show ?thesis using h1 h2 a b c by simp
qed

end
